theory Spec2Isabelle
  imports Main "HOL-Library.AList"
begin

section \<open>The Pivot environment of msticpy/datamodel/pivot.py\<close>

text \<open>
  The module holds one class, \<open>Pivot\<close>. An instance owns a provider registry (a dict from
  a category key to a provider object) and a query time (a \<open>QueryTime\<close> widget); its
  constructor scans a namespace and an explicit provider list, and hands the providers to
  three registration helpers of other modules.

  The model is a store of objects with explicit state passing: \<open>Pivot\<close> objects and dicts
  live in the store and are referred to by address, because the source shares them (the
  bound method \<open>self._get_timespan\<close> is given to a helper, the property \<open>providers\<close>
  returns the dict itself). The calls made to code of other modules are kept in a log.
\<close>

subsection \<open>Values\<close>

type_synonym datetime = int
type_synonym addr = nat

datatype error = ValueError | AttributeError

text \<open>The two classes the source tests with \<open>isinstance\<close>.\<close>

datatype pytype = QueryProvider_type | TILookup_type

text \<open>
  The objects found in a namespace or a provider list: a query provider (with its
  \<open>environment\<close> attribute), a TI lookup, or an object of any other class. \<open>obj_id\<close> is
  the identity of the object. Instances of both classes are truthy (neither class is read
  by this module as a container or a number).
\<close>

datatype pyobj =
    QueryProvider (environment: string) (obj_id: nat)
  | TILookup (obj_id: nat)
  | Other (obj_id: nat)

fun isinstance :: "pyobj \<Rightarrow> pytype \<Rightarrow> bool" where
  "isinstance (QueryProvider _ _) t = (t = QueryProvider_type)"
| "isinstance (TILookup _) t = (t = TILookup_type)"
| "isinstance (Other _) t = False"

text \<open>
  Modelled from the spec: class \<open>TimeSpan\<close> (msticpy.common.timespan) is not among the
  sources. The spec describes a time span as an immutable (start, end) pair.
\<close>

record TimeSpan =
  ts_start :: datetime
  ts_end :: datetime

text \<open>
  Modelled from the spec: class \<open>QueryTime\<close> (msticpy.nbtools.nbwidgets) is not among the
  sources. The constructors are the two keyword forms in which pivot.py calls it: a
  rolling window (\<open>origin_time\<close>, \<open>before\<close>, \<open>after\<close>, \<open>label\<close>, \<open>units\<close>) and an
  explicit span (\<open>timespan\<close>, \<open>label\<close>); the spec names these two states "default" and
  "explicit".
\<close>

datatype QueryTime =
    QueryTime_rolling (qt_origin_time: datetime) (qt_before: int) (qt_after: int)
      (qt_label: string) (qt_units: string)
  | QueryTime_span (qt_timespan: TimeSpan) (qt_label: string)

text \<open>
  What pivot.py uses of the rest of the package without the sources saying what it is:
  the length of one time unit of the widget, the unit a widget has when none is given,
  and whether every entity named in a pivot registration file is recognised.
\<close>

datatype file_ref = Resource_filename string string | File_path string

record msticpy_env =
  unit_delta :: "string \<Rightarrow> int"
  default_units :: string
  entities_recognised :: "file_ref \<Rightarrow> bool"

text \<open>
  Modelled from the spec: the attributes \<open>start\<close>, \<open>end\<close> and \<open>units\<close> of a
  \<open>QueryTime\<close>. A rolling window reaches \<open>before\<close> units back and \<open>after\<close> units
  forward from its origin; an explicit span is the span it was given.
\<close>

fun QueryTime_start :: "msticpy_env \<Rightarrow> QueryTime \<Rightarrow> datetime" where
  "QueryTime_start env (QueryTime_rolling t b a l u) = t - b * unit_delta env u"
| "QueryTime_start env (QueryTime_span ts l) = ts_start ts"

fun QueryTime_end :: "msticpy_env \<Rightarrow> QueryTime \<Rightarrow> datetime" where
  "QueryTime_end env (QueryTime_rolling t b a l u) = t + a * unit_delta env u"
| "QueryTime_end env (QueryTime_span ts l) = ts_end ts"

fun QueryTime_units :: "msticpy_env \<Rightarrow> QueryTime \<Rightarrow> string" where
  "QueryTime_units env (QueryTime_rolling t b a l u) = u"
| "QueryTime_units env (QueryTime_span ts l) = default_units env"

subsection \<open>Dicts\<close>

text \<open>
  A Python dict keeps its keys in insertion order and an assignment to a key that is
  present replaces the value in place: an association list with distinct keys, written
  with \<open>AList.update\<close>.
\<close>

type_synonym pydict = "(string \<times> pyobj) list"
type_synonym namespace = "(string \<times> pyobj) list"

definition dict_setitem :: "pydict \<Rightarrow> string \<Rightarrow> pyobj \<Rightarrow> pydict" where
  "dict_setitem d k v = AList.update k v d"

definition dict_update :: "pydict \<Rightarrow> pydict \<Rightarrow> pydict" where
  "dict_update d other = foldl (\<lambda>acc (k, v). dict_setitem acc k v) d other"

definition dict_get :: "pydict \<Rightarrow> string \<Rightarrow> pyobj option" where
  "dict_get d k = map_of d k"

definition dict_values :: "pydict \<Rightarrow> pyobj list" where
  "dict_values d = map snd d"

text \<open>
  The comprehension \<open>{prov.environment: prov for prov in xs if isinstance(prov, QueryProvider)}\<close>.
\<close>

definition environment_dict :: "pyobj list \<Rightarrow> pydict" where
  "environment_dict xs =
     foldl (\<lambda>acc prov. dict_setitem acc (environment prov) prov) []
       (filter (\<lambda>prov. isinstance prov QueryProvider_type) xs)"

text \<open>
  The tests \<open>if namespace:\<close> and \<open>if providers:\<close>: \<open>None\<close> and an empty container are
  false. The provider list is a sequence that can be read more than once, as the
  docstring of the constructor has it ("a list of query providers").
\<close>

fun truthy :: "'a list option \<Rightarrow> bool" where
  "truthy None = False"
| "truthy (Some xs) = (xs \<noteq> [])"

fun namespace_values :: "namespace option \<Rightarrow> pyobj list" where
  "namespace_values None = []"
| "namespace_values (Some ns) = dict_values ns"

fun items :: "pyobj list option \<Rightarrow> pyobj list" where
  "items None = []"
| "items (Some xs) = xs"

subsection \<open>The store\<close>

text \<open>
  A \<open>Pivot\<close> object has two attributes: \<open>_query_time\<close> (the source tests it against
  \<open>None\<close>) and \<open>_providers\<close>, a reference to a dict.
\<close>

record Pivot =
  p_query_time :: "QueryTime option"
  p_providers :: addr

text \<open>
  A callable handed to a helper: the bound method \<open>self._get_timespan\<close> holds a
  reference to its object, not a value read from it.
\<close>

datatype callable = Bound_get_timespan addr

text \<open>
  The calls to code outside pivot.py that have an effect there, with their arguments. Of
  \<open>register_pivots\<close>: the file, the container name, \<open>force_container\<close> where the call
  gives it, and the namespace.
\<close>

datatype ext_call =
    Add_data_queries_to_entities pyobj callable
  | Add_ioc_queries_to_entities "pyobj option" string
  | Register_pivots file_ref string "bool option" "namespace option"
  | Display QueryTime

text \<open>
  Addresses are positions in the lists \<open>pivots\<close> and \<open>dicts\<close>; a new object is
  appended, so its address is fresh. \<open>next_obj\<close> is the identity of the next object that a
  constructor of another module returns.
\<close>

record world =
  pivots :: "Pivot list"
  dicts :: "pydict list"
  calls :: "ext_call list"
  next_obj :: nat

definition self_providers :: "world \<Rightarrow> addr \<Rightarrow> pydict" where
  "self_providers w self = dicts w ! p_providers (pivots w ! self)"

definition set_self_providers :: "world \<Rightarrow> addr \<Rightarrow> pydict \<Rightarrow> world" where
  "set_self_providers w self d =
     w\<lparr>dicts := (dicts w)[p_providers (pivots w ! self) := d]\<rparr>"

definition set_query_time :: "world \<Rightarrow> addr \<Rightarrow> QueryTime \<Rightarrow> world" where
  "set_query_time w self qt =
     w\<lparr>pivots := (pivots w)[self := (pivots w ! self)\<lparr>p_query_time := Some qt\<rparr>]\<rparr>"

definition log_call :: "world \<Rightarrow> ext_call \<Rightarrow> world" where
  "log_call w c = w\<lparr>calls := calls w @ [c]\<rparr>"

subsection \<open>The helpers of other modules\<close>

text \<open>
  \<open>TILookup()\<close> returns a new object. The two \<open>add_..._to_entities\<close> helpers attach
  functions to the entity classes: their calls are logged. \<open>register_pivots\<close> raises
  \<open>ValueError\<close> when the file names an entity that is not recognised (so the docstring of
  \<open>register_pivot_providers\<close>).
\<close>

definition TILookup_new :: "world \<Rightarrow> pyobj \<times> world" where
  "TILookup_new w = (TILookup (next_obj w), w\<lparr>next_obj := Suc (next_obj w)\<rparr>)"

definition add_data_queries_to_entities :: "world \<Rightarrow> pyobj \<Rightarrow> callable \<Rightarrow> world" where
  "add_data_queries_to_entities w prov get_timespan =
     log_call w (Add_data_queries_to_entities prov get_timespan)"

definition add_ioc_queries_to_entities :: "world \<Rightarrow> pyobj option \<Rightarrow> string \<Rightarrow> world" where
  "add_ioc_queries_to_entities w ti_lookup container =
     log_call w (Add_ioc_queries_to_entities ti_lookup container)"

definition register_pivots ::
  "msticpy_env \<Rightarrow> world \<Rightarrow> file_ref \<Rightarrow> string \<Rightarrow> bool option \<Rightarrow> namespace option
     \<Rightarrow> (error + unit) \<times> world"
where
  "register_pivots env w file_path container force_container namespace =
     ((if entities_recognised env file_path then Inr () else Inl ValueError),
      log_call w (Register_pivots file_path container force_container namespace))"

subsection \<open>The methods of \<open>Pivot\<close>\<close>

definition DEF_PIVOT_REG_FILE :: string where
  "DEF_PIVOT_REG_FILE = ''resources/mp_pivot_reg.yaml''"

definition query_time_label :: string where
  "query_time_label = ''Set time range for pivot functions.''"

definition get_query_providers ::
  "world \<Rightarrow> addr \<Rightarrow> namespace option \<Rightarrow> pyobj list option \<Rightarrow> world"
where
  "get_query_providers w self namespace providers =
     (let w1 = (if truthy namespace
                then set_self_providers w self
                       (dict_update (self_providers w self)
                          (environment_dict (namespace_values namespace)))
                else w)
      in if truthy providers
         then set_self_providers w1 self
                (dict_update (self_providers w1 self) (environment_dict (items providers)))
         else w1)"

definition get_provider_by_type ::
  "pytype \<Rightarrow> namespace option \<Rightarrow> pyobj list option \<Rightarrow> pyobj option"
where
  "get_provider_by_type provider_type namespace providers =
     (let ti_provs = filter (\<lambda>prov. isinstance prov provider_type) (items providers) in
      if truthy providers \<and> ti_provs \<noteq> [] then Some (hd ti_provs)
      else
        let ns_providers =
              filter (\<lambda>prov. isinstance prov provider_type) (namespace_values namespace) in
        if truthy namespace \<and> ns_providers \<noteq> [] then Some (last ns_providers)
        else None)"

definition get_all_providers ::
  "world \<Rightarrow> addr \<Rightarrow> namespace option \<Rightarrow> pyobj list option \<Rightarrow> world"
where
  "get_all_providers w self namespace providers =
     (let w1 = get_query_providers w self namespace providers in
      case get_provider_by_type TILookup_type namespace providers of
        Some prov \<Rightarrow>
          set_self_providers w1 self (dict_setitem (self_providers w1 self) ''TILookup'' prov)
      | None \<Rightarrow>
          (let (ti, w2) = TILookup_new w1 in
           set_self_providers w2 self
             (dict_setitem (self_providers w2 self) ''TILookup'' ti)))"

definition get_def_pivot_reg :: file_ref where
  "get_def_pivot_reg = Resource_filename ''msticpy'' DEF_PIVOT_REG_FILE"

text \<open>The property \<open>providers\<close> returns the dict object of the registry: its address.\<close>

definition Pivot_providers :: "world \<Rightarrow> addr \<Rightarrow> addr" where
  "Pivot_providers w self = p_providers (pivots w ! self)"

definition get_provider :: "world \<Rightarrow> addr \<Rightarrow> string \<Rightarrow> pyobj option" where
  "get_provider w self name = dict_get (self_providers w self) name"

definition set_default_query_time :: "world \<Rightarrow> addr \<Rightarrow> string \<Rightarrow> int \<Rightarrow> datetime \<Rightarrow> world" where
  "set_default_query_time w self units' n_before utcnow =
     set_query_time w self (QueryTime_rolling utcnow n_before 0 query_time_label units')"

definition timespan_setter :: "world \<Rightarrow> addr \<Rightarrow> TimeSpan \<Rightarrow> world" where
  "timespan_setter w self ts = set_query_time w self (QueryTime_span ts query_time_label)"

definition Pivot_start :: "msticpy_env \<Rightarrow> world \<Rightarrow> addr \<Rightarrow> error + datetime" where
  "Pivot_start env w self =
     (case p_query_time (pivots w ! self) of
        None \<Rightarrow> Inl AttributeError
      | Some qt \<Rightarrow> Inr (QueryTime_start env qt))"

definition Pivot_end :: "msticpy_env \<Rightarrow> world \<Rightarrow> addr \<Rightarrow> error + datetime" where
  "Pivot_end env w self =
     (case p_query_time (pivots w ! self) of
        None \<Rightarrow> Inl AttributeError
      | Some qt \<Rightarrow> Inr (QueryTime_end env qt))"

definition Pivot_timespan :: "msticpy_env \<Rightarrow> world \<Rightarrow> addr \<Rightarrow> error + TimeSpan" where
  "Pivot_timespan env w self =
     (case Pivot_start env w self of
        Inl e \<Rightarrow> Inl e
      | Inr s \<Rightarrow>
          (case Pivot_end env w self of
             Inl e \<Rightarrow> Inl e
           | Inr e \<Rightarrow> Inr \<lparr>ts_start = s, ts_end = e\<rparr>))"

definition get_timespan :: "msticpy_env \<Rightarrow> world \<Rightarrow> addr \<Rightarrow> error + TimeSpan" where
  "get_timespan env w self =
     (case Pivot_start env w self of
        Inl e \<Rightarrow> Inl e
      | Inr s \<Rightarrow>
          (case Pivot_end env w self of
             Inl e \<Rightarrow> Inl e
           | Inr e \<Rightarrow> Inr \<lparr>ts_start = s, ts_end = e\<rparr>))"

text \<open>Calling a callable that a helper was given, in the store of the time of the call.\<close>

fun call :: "msticpy_env \<Rightarrow> world \<Rightarrow> callable \<Rightarrow> error + TimeSpan" where
  "call env w (Bound_get_timespan self) = get_timespan env w self"

text \<open>
  \<open>edit_query_time\<close>; \<open>utcnow\<close> is what \<open>datetime.utcnow()\<close> returns during the call.
\<close>

definition edit_query_time ::
  "msticpy_env \<Rightarrow> world \<Rightarrow> addr \<Rightarrow> string \<Rightarrow> TimeSpan option \<Rightarrow> datetime \<Rightarrow> error + world"
where
  "edit_query_time env w self units' timespan' utcnow =
     (let w1 = (if (case p_query_time (pivots w ! self) of
                      None \<Rightarrow> True
                    | Some qt \<Rightarrow> QueryTime_units env qt \<noteq> units')
                then set_default_query_time w self units' 1 utcnow
                else w);
          w2 = (case timespan' of
                  Some ts \<Rightarrow> set_query_time w1 self (QueryTime_span ts query_time_label)
                | None \<Rightarrow> w1)
      in case p_query_time (pivots w2 ! self) of
           None \<Rightarrow> Inl AttributeError
         | Some qt \<Rightarrow> Inr (log_call w2 (Display qt)))"

definition register_pivot_providers ::
  "msticpy_env \<Rightarrow> world \<Rightarrow> file_ref \<Rightarrow> namespace option \<Rightarrow> string \<Rightarrow> bool \<Rightarrow> (error + unit) \<times> world"
where
  "register_pivot_providers env w pivot_reg_path namespace def_container force_container =
     register_pivots env w pivot_reg_path def_container (Some force_container) namespace"

text \<open>
  The constructor. The new object gets the next address, and \<open>_providers\<close> is bound to a
  new empty dict when the object is made (the source binds it after the query time and
  before its first read; the two assignments do not depend on each other). The result is
  the address of the new object, or the error that \<open>register_pivots\<close> raised; the store is
  returned in both cases, since the calls before the error have happened.
\<close>

definition Pivot_init ::
  "msticpy_env \<Rightarrow> world \<Rightarrow> namespace option \<Rightarrow> pyobj list option \<Rightarrow> TimeSpan option \<Rightarrow> datetime
     \<Rightarrow> (error + addr) \<times> world"
where
  "Pivot_init env w namespace providers timespan' utcnow =
     (let self = length (pivots w);
          w0 = w\<lparr>pivots := pivots w @ [\<lparr>p_query_time = None, p_providers = length (dicts w)\<rparr>],
                 dicts := dicts w @ [[]]\<rparr>;
          w1 = (case timespan' of
                  Some ts \<Rightarrow> timespan_setter w0 self ts
                | None \<Rightarrow> set_default_query_time w0 self ''day'' 1 utcnow);
          w2 = get_all_providers w1 self namespace providers;
          data_provs = filter (\<lambda>prov. isinstance prov QueryProvider_type)
                         (dict_values (self_providers w2 self));
          w3 = foldl (\<lambda>acc prov. add_data_queries_to_entities acc prov (Bound_get_timespan self))
                 w2 data_provs;
          w4 = add_ioc_queries_to_entities w3 (get_provider w3 self ''TILookup'') ''ti'';
          (r, w5) = register_pivots env w4 get_def_pivot_reg ''other'' None namespace
      in (case r of Inl e \<Rightarrow> Inl e | Inr _ \<Rightarrow> Inr self, w5))"

subsection \<open>What a caller and a session can do\<close>

text \<open>
  A caller that holds a reference to a dict can assign to a key of it: the statement
  \<open>d[k] = v\<close> on the dict at address \<open>r\<close>.
\<close>

definition caller_setitem :: "world \<Rightarrow> addr \<Rightarrow> string \<Rightarrow> pyobj \<Rightarrow> world" where
  "caller_setitem w r k v = w\<lparr>dicts := (dicts w)[r := dict_setitem (dicts w ! r) k v]\<rparr>"

text \<open>
  The operations of the class that change the store, on any object of the store: the
  setter of \<open>timespan\<close>, \<open>edit_query_time\<close>, the static \<open>register_pivot_providers\<close>
  and the construction of a further environment. The read accessors (\<open>start\<close>, \<open>end\<close>,
  \<open>timespan\<close>, \<open>providers\<close>, \<open>get_provider\<close>) are functions of the store and leave it as
  it is. An operation that raises leaves the log as \<open>register_pivots\<close> made it;
  \<open>edit_query_time\<close> does not raise on an object of the store, whose query time it sets
  before it displays it.
\<close>

datatype pivot_op =
    Set_timespan addr TimeSpan
  | Edit_query_time addr string "TimeSpan option" datetime
  | Register_pivot_providers file_ref "namespace option" string bool
  | New_pivot "namespace option" "pyobj list option" "TimeSpan option" datetime

fun run_op :: "msticpy_env \<Rightarrow> world \<Rightarrow> pivot_op \<Rightarrow> world" where
  "run_op env w (Set_timespan self ts) = timespan_setter w self ts"
| "run_op env w (Edit_query_time self u ts now) =
     (case edit_query_time env w self u ts now of Inr w' \<Rightarrow> w' | Inl e \<Rightarrow> w)"
| "run_op env w (Register_pivot_providers path ns c f) =
     snd (register_pivot_providers env w path ns c f)"
| "run_op env w (New_pivot ns provs ts now) = snd (Pivot_init env w ns provs ts now)"

subsection \<open>Vocabulary of the statements\<close>

text \<open>
  The key under which the constructor files a provider: \<open>prov.environment\<close> for a query
  provider, the literal \<open>"TILookup"\<close> for a TI lookup; other objects are not filed.
\<close>

fun category_key :: "pyobj \<Rightarrow> string option" where
  "category_key (QueryProvider e _) = Some e"
| "category_key (TILookup _) = Some ''TILookup''"
| "category_key (Other _) = None"

text \<open>
  The object at \<open>self\<close> exists and its \<open>_providers\<close> refers to a dict of the store.
\<close>

definition allocated :: "world \<Rightarrow> addr \<Rightarrow> bool" where
  "allocated w self = (self < length (pivots w) \<and> p_providers (pivots w ! self) < length (dicts w))"

text \<open>
  The state that the constructor builds, as functions of its arguments: the registry after
  the two \<open>update\<close> calls, the TI lookup that is filed (\<open>n\<close> is the identity that a new
  object would get), the finished registry, and the first query time.
\<close>

definition discovered :: "namespace option \<Rightarrow> pyobj list option \<Rightarrow> pydict" where
  "discovered namespace providers =
     dict_update (dict_update [] (environment_dict (namespace_values namespace)))
       (environment_dict (items providers))"

definition found_ti :: "namespace option \<Rightarrow> pyobj list option \<Rightarrow> nat \<Rightarrow> pyobj" where
  "found_ti namespace providers n =
     (case get_provider_by_type TILookup_type namespace providers of
        Some prov \<Rightarrow> prov | None \<Rightarrow> TILookup n)"

definition registry :: "namespace option \<Rightarrow> pyobj list option \<Rightarrow> nat \<Rightarrow> pydict" where
  "registry namespace providers n =
     dict_setitem (discovered namespace providers) ''TILookup'' (found_ti namespace providers n)"

definition initial_query_time :: "TimeSpan option \<Rightarrow> datetime \<Rightarrow> QueryTime" where
  "initial_query_time timespan' utcnow =
     (case timespan' of
        Some ts \<Rightarrow> QueryTime_span ts query_time_label
      | None \<Rightarrow> QueryTime_rolling utcnow 1 0 query_time_label ''day'')"

subsection \<open>Concrete inputs\<close>

text \<open>
  A package in which a day has 86400 seconds and an hour 3600, a widget without units
  counts in minutes and every registration file is accepted; and a store without objects.
\<close>

definition example_env :: msticpy_env where
  "example_env =
     \<lparr>unit_delta = (\<lambda>u. if u = ''day'' then 86400 else if u = ''hour'' then 3600 else 60),
      default_units = ''min'',
      entities_recognised = (\<lambda>f. True)\<rparr>"

definition empty_world :: world where
  "empty_world = \<lparr>pivots = [], dicts = [], calls = [], next_obj = 0\<rparr>"

section \<open>Lemmas\<close>

subsection \<open>Dicts\<close>

lemma dict_update_Nil [simp]: "dict_update d [] = d"
  by (simp add: dict_update_def)

lemma environment_dict_Nil [simp]: "environment_dict [] = []"
  by (simp add: environment_dict_def)

lemma map_of_dict_update:
  "map_of (dict_update d other) = map_of d ++ map_of (rev other)"
  unfolding dict_update_def dict_setitem_def
  by (induction other arbitrary: d) (auto simp: AList.update_conv' map_add_def fun_eq_iff split: option.splits)

lemma distinct_dict_update:
  "distinct (map fst d) \<Longrightarrow> distinct (map fst (dict_update d other))"
  unfolding dict_update_def dict_setitem_def
  by (induction other arbitrary: d) (auto simp: AList.distinct_update)

lemma map_of_foldl_setitem:
  "map_of (foldl (\<lambda>acc prov. dict_setitem acc (f prov) prov) d ys) =
     map_of d ++ map_of (rev (map (\<lambda>prov. (f prov, prov)) ys))"
  unfolding dict_setitem_def
  by (induction ys arbitrary: d) (auto simp: AList.update_conv' map_add_def fun_eq_iff split: option.splits)

lemma distinct_foldl_setitem:
  "distinct (map fst d) \<Longrightarrow>
   distinct (map fst (foldl (\<lambda>acc prov. dict_setitem acc (f prov) prov) d ys))"
  unfolding dict_setitem_def
  by (induction ys arbitrary: d) (auto simp: AList.distinct_update)

lemma distinct_environment_dict: "distinct (map fst (environment_dict xs))"
  unfolding environment_dict_def by (rule distinct_foldl_setitem) simp

lemma map_of_environment_dict:
  "map_of (environment_dict xs) =
     map_of (rev (map (\<lambda>prov. (environment prov, prov))
                    (filter (\<lambda>prov. isinstance prov QueryProvider_type) xs)))"
  unfolding environment_dict_def by (simp add: map_of_foldl_setitem)

lemma map_of_rev_distinct: "distinct (map fst d) \<Longrightarrow> map_of (rev d) = map_of d"
  by (rule ext) (metis distinct_rev map_of_eq_Some_iff not_None_eq rev_map set_rev)

lemma environment_dict_last:
  assumes "xs = ys @ q # zs" "isinstance q QueryProvider_type"
    and "\<forall>p\<in>set zs. isinstance p QueryProvider_type \<longrightarrow> environment p \<noteq> environment q"
  shows "map_of (environment_dict xs) (environment q) = Some q"
proof -
  have "map_of (rev (map (\<lambda>prov. (environment prov, prov))
           (filter (\<lambda>prov. isinstance prov QueryProvider_type) zs))) (environment q) = None"
    using assms(3) by (auto simp: map_of_eq_None_iff image_iff)
  then show ?thesis
    using assms(1,2) by (simp add: map_of_environment_dict map_add_def)
qed

lemma environment_dict_None:
  "(\<forall>p\<in>set xs. isinstance p QueryProvider_type \<longrightarrow> environment p \<noteq> k) \<Longrightarrow>
   map_of (environment_dict xs) k = None"
  by (auto simp: map_of_environment_dict map_of_eq_None_iff image_iff)

lemma environment_dict_Some:
  "map_of (environment_dict xs) k = Some q \<Longrightarrow>
   q \<in> set xs \<and> isinstance q QueryProvider_type \<and> environment q = k"
  by (auto simp: map_of_environment_dict dest!: map_of_SomeD)

lemma environment_dict_present:
  assumes "y \<in> set xs" "isinstance y QueryProvider_type" "environment y = k"
  shows "\<exists>z\<in>set xs. isinstance z QueryProvider_type \<and> environment z = k \<and>
           map_of (environment_dict xs) k = Some z"
proof (cases "map_of (environment_dict xs) k")
  case None
  then have "k \<notin> fst ` set (rev (map (\<lambda>prov. (environment prov, prov))
                    (filter (\<lambda>prov. isinstance prov QueryProvider_type) xs)))"
    by (simp add: map_of_environment_dict map_of_eq_None_iff)
  with assms show ?thesis by (auto simp: image_iff)
next
  case (Some z)
  with environment_dict_Some[OF Some] show ?thesis by auto
qed

lemma environment_dict_empty:
  "\<forall>p\<in>set xs. \<not> isinstance p QueryProvider_type \<Longrightarrow> environment_dict xs = []"
  by (simp add: environment_dict_def filter_empty_conv[THEN iffD2])

subsection \<open>Finding a provider by its type\<close>

lemma get_provider_by_type_first:
  assumes "items providers = xs @ t # ys" "isinstance t T" "\<forall>p\<in>set xs. \<not> isinstance p T"
  shows "get_provider_by_type T namespace providers = Some t"
proof -
  have "filter (\<lambda>prov. isinstance prov T) xs = []"
    using assms(3) by (simp add: filter_empty_conv)
  moreover have "truthy providers"
    using assms(1) by (cases providers) auto
  ultimately show ?thesis
    using assms(1,2) by (simp add: get_provider_by_type_def)
qed

lemma get_provider_by_type_namespace_last:
  assumes "\<forall>p\<in>set (items providers). \<not> isinstance p T"
    and "namespace_values namespace = xs @ t # ys" "isinstance t T"
    and "\<forall>p\<in>set ys. \<not> isinstance p T"
  shows "get_provider_by_type T namespace providers = Some t"
proof -
  have a: "filter (\<lambda>prov. isinstance prov T) (items providers) = []"
    using assms(1) by (simp add: filter_empty_conv)
  have b: "filter (\<lambda>prov. isinstance prov T) ys = []"
    using assms(4) by (simp add: filter_empty_conv)
  have c: "truthy namespace"
    using assms(2) by (cases namespace) (auto simp: dict_values_def)
  show ?thesis
    using assms(2,3) by (simp add: get_provider_by_type_def a b c)
qed

lemma get_provider_by_type_None:
  assumes "\<forall>p\<in>set (items providers). \<not> isinstance p T"
    and "\<forall>p\<in>set (namespace_values namespace). \<not> isinstance p T"
  shows "get_provider_by_type T namespace providers = None"
  using assms by (simp add: get_provider_by_type_def filter_empty_conv)

lemma get_provider_by_type_Some:
  assumes "get_provider_by_type T namespace providers = Some x"
  shows "isinstance x T \<and> (x \<in> set (items providers) \<or> x \<in> set (namespace_values namespace))"
proof -
  have h: "P (hd (filter P zs)) \<and> hd (filter P zs) \<in> set zs"
    if "filter P zs \<noteq> []" for P and zs :: "pyobj list"
    using hd_in_set[OF that] by simp
  have l: "P (last (filter P zs)) \<and> last (filter P zs) \<in> set zs"
    if "filter P zs \<noteq> []" for P and zs :: "pyobj list"
    using last_in_set[OF that] by simp
  show ?thesis
    using assms h[of "\<lambda>prov. isinstance prov T" "items providers"]
      l[of "\<lambda>prov. isinstance prov T" "namespace_values namespace"]
    by (auto simp: get_provider_by_type_def Let_def split: if_splits)
qed

lemma get_provider_by_type_explicit:
  assumes "t \<in> set (items providers)" "isinstance t T"
  shows "\<exists>z\<in>set (items providers). isinstance z T \<and>
           get_provider_by_type T namespace providers = Some z"
proof -
  have ne: "filter (\<lambda>prov. isinstance prov T) (items providers) \<noteq> []"
    using assms by (auto simp: filter_empty_conv)
  have tr: "truthy providers"
    using assms(1) by (cases providers) auto
  have "hd (filter (\<lambda>prov. isinstance prov T) (items providers)) \<in>
          set (filter (\<lambda>prov. isinstance prov T) (items providers))"
    using ne by (rule hd_in_set)
  then show ?thesis
    using ne tr by (auto simp: get_provider_by_type_def)
qed

lemma category_key_cases:
  "category_key y = Some k \<Longrightarrow>
     (isinstance y QueryProvider_type \<and> environment y = k) \<or>
     (isinstance y TILookup_type \<and> k = ''TILookup'')"
  by (cases y) auto

lemma category_key_QueryProvider:
  "isinstance z QueryProvider_type \<Longrightarrow> category_key z = Some (environment z)"
  by (cases z) auto

lemma category_key_TILookup:
  "isinstance z TILookup_type \<Longrightarrow> category_key z = Some ''TILookup''"
  by (cases z) auto

lemma TILookup_not_QueryProvider:
  "isinstance x TILookup_type \<Longrightarrow> \<not> isinstance x QueryProvider_type"
  by (cases x) auto

lemma found_ti_isinstance: "isinstance (found_ti namespace providers n) TILookup_type"
  by (cases "get_provider_by_type TILookup_type namespace providers")
     (auto simp: found_ti_def dest: get_provider_by_type_Some)

subsection \<open>The registry\<close>

lemma map_of_discovered:
  "map_of (discovered namespace providers) =
     map_of (environment_dict (namespace_values namespace)) ++
     map_of (environment_dict (items providers))"
  by (simp add: discovered_def map_of_dict_update map_of_rev_distinct distinct_environment_dict)

lemma distinct_registry: "distinct (map fst (registry namespace providers n))"
  by (simp add: registry_def dict_setitem_def discovered_def AList.distinct_update
      distinct_dict_update)

lemma dict_get_registry:
  "dict_get (registry namespace providers n) k =
     (if k = ''TILookup'' then Some (found_ti namespace providers n)
      else (map_of (environment_dict (namespace_values namespace)) ++
            map_of (environment_dict (items providers))) k)"
  by (simp add: dict_get_def registry_def dict_setitem_def AList.update_conv' map_of_discovered)

text \<open>last occurrence wins\<close>

subsection \<open>The store after construction\<close>

lemma foldl_add_data_queries:
  "foldl (\<lambda>acc prov. add_data_queries_to_entities acc prov c) w xs =
     w\<lparr>calls := calls w @ map (\<lambda>prov. Add_data_queries_to_entities prov c) xs\<rparr>"
  by (induction xs arbitrary: w) (simp_all add: add_data_queries_to_entities_def log_call_def)

lemma not_truthy_namespace_values: "\<not> truthy namespace \<Longrightarrow> namespace_values namespace = []"
  by (cases namespace) (simp_all add: dict_values_def)

lemma not_truthy_items: "\<not> truthy providers \<Longrightarrow> items providers = []"
  by (cases providers) simp_all

lemma set_self_providers_twice:
  "set_self_providers (set_self_providers w self d) self d' = set_self_providers w self d'"
  by (simp add: set_self_providers_def)

lemma self_providers_set:
  "p_providers (pivots w ! self) < length (dicts w) \<Longrightarrow>
   self_providers (set_self_providers w self d) self = d"
  by (simp add: set_self_providers_def self_providers_def)

lemma set_self_providers_same:
  "set_self_providers w self (self_providers w self) = w"
  by (simp add: set_self_providers_def self_providers_def)

lemma get_query_providers_eq:
  assumes "p_providers (pivots w ! self) < length (dicts w)"
  shows "get_query_providers w self namespace providers =
           set_self_providers w self
             (dict_update
                (dict_update (self_providers w self) (environment_dict (namespace_values namespace)))
                (environment_dict (items providers)))"
proof -
  let ?d1 = "dict_update (self_providers w self) (environment_dict (namespace_values namespace))"
  have w1: "(if truthy namespace then set_self_providers w self ?d1 else w) =
              set_self_providers w self ?d1"
    by (simp add: not_truthy_namespace_values set_self_providers_same)
  have sp: "self_providers (set_self_providers w self ?d1) self = ?d1"
    using assms by (rule self_providers_set)
  show ?thesis
    unfolding get_query_providers_def Let_def w1 sp
    by (simp add: not_truthy_items set_self_providers_twice)
qed

lemma get_all_providers_eq:
  assumes "p_providers (pivots w ! self) < length (dicts w)"
    and "self_providers w self = []"
  shows "get_all_providers w self namespace providers =
           (set_self_providers w self (registry namespace providers (next_obj w)))
             \<lparr>next_obj := (case get_provider_by_type TILookup_type namespace providers of
                            Some prov \<Rightarrow> next_obj w | None \<Rightarrow> Suc (next_obj w))\<rparr>"
proof -
  have q: "get_query_providers w self namespace providers =
             set_self_providers w self (discovered namespace providers)"
    using assms by (simp add: get_query_providers_eq discovered_def)
  have sp: "self_providers (set_self_providers w self (discovered namespace providers)) self =
              discovered namespace providers"
    using assms(1) by (rule self_providers_set)
  show ?thesis
    unfolding get_all_providers_def Let_def q
    using assms(1)
    by (cases "get_provider_by_type TILookup_type namespace providers")
       (simp_all add: sp registry_def found_ti_def TILookup_new_def set_self_providers_def
          self_providers_def)
qed

lemma Pivot_init_world:
  "snd (Pivot_init env w namespace providers timespan' utcnow) =
     \<lparr>pivots = pivots w @
        [\<lparr>p_query_time = Some (initial_query_time timespan' utcnow),
          p_providers = length (dicts w)\<rparr>],
      dicts = dicts w @ [registry namespace providers (next_obj w)],
      calls = calls w @
        map (\<lambda>prov. Add_data_queries_to_entities prov (Bound_get_timespan (length (pivots w))))
          (filter (\<lambda>prov. isinstance prov QueryProvider_type)
             (dict_values (registry namespace providers (next_obj w)))) @
        [Add_ioc_queries_to_entities
           (dict_get (registry namespace providers (next_obj w)) ''TILookup'') ''ti'',
         Register_pivots get_def_pivot_reg ''other'' None namespace],
      next_obj = (case get_provider_by_type TILookup_type namespace providers of
                    Some prov \<Rightarrow> next_obj w | None \<Rightarrow> Suc (next_obj w))\<rparr>"
proof -
  define w0 where "w0 = w\<lparr>pivots := pivots w @ [\<lparr>p_query_time = None, p_providers = length (dicts w)\<rparr>],
                 dicts := dicts w @ [[]]\<rparr>"
  define w1 where "w1 = (case timespan' of
                  Some ts \<Rightarrow> timespan_setter w0 (length (pivots w)) ts
                | None \<Rightarrow> set_default_query_time w0 (length (pivots w)) ''day'' 1 utcnow)"
  have w1_eq: "w1 = w\<lparr>pivots := pivots w @ [\<lparr>p_query_time = Some (initial_query_time timespan' utcnow),
                          p_providers = length (dicts w)\<rparr>], dicts := dicts w @ [[]]\<rparr>"
    unfolding w1_def w0_def
    by (cases timespan')
       (simp_all add: timespan_setter_def set_default_query_time_def set_query_time_def
          initial_query_time_def)
  have v: "p_providers (pivots w1 ! length (pivots w)) < length (dicts w1)"
    and e: "self_providers w1 (length (pivots w)) = []"
    by (simp_all add: w1_eq self_providers_def)
  show ?thesis
    unfolding Pivot_init_def Let_def w0_def[symmetric] w1_def[symmetric]
    unfolding get_all_providers_eq[OF v e] 
    by (simp add: w1_eq foldl_add_data_queries register_pivots_def add_ioc_queries_to_entities_def
       log_call_def get_provider_def self_providers_def set_self_providers_def
       split: prod.splits option.splits)
qed

lemma Pivot_init_result:
  "fst (Pivot_init env w namespace providers timespan' utcnow) =
     (if entities_recognised env get_def_pivot_reg then Inr (length (pivots w)) else Inl ValueError)"
  by (simp add: Pivot_init_def Let_def register_pivots_def split: prod.splits)

lemma get_provider_init:
  "get_provider (snd (Pivot_init env w namespace providers timespan' utcnow)) (length (pivots w)) k =
     dict_get (registry namespace providers (next_obj w)) k"
  by (simp add: Pivot_init_world get_provider_def self_providers_def)


lemma calls_init:
  "calls (snd (Pivot_init env w namespace providers timespan' utcnow)) =
     calls w @
     map (\<lambda>prov. Add_data_queries_to_entities prov (Bound_get_timespan (length (pivots w))))
       (filter (\<lambda>prov. isinstance prov QueryProvider_type)
          (dict_values (registry namespace providers (next_obj w)))) @
     [Add_ioc_queries_to_entities
        (dict_get (registry namespace providers (next_obj w)) ''TILookup'') ''ti'',
      Register_pivots get_def_pivot_reg ''other'' None namespace]"
  by (simp add: Pivot_init_world)

lemma next_obj_init:
  "next_obj (snd (Pivot_init env w namespace providers timespan' utcnow)) =
     (case get_provider_by_type TILookup_type namespace providers of
        Some prov \<Rightarrow> next_obj w | None \<Rightarrow> Suc (next_obj w))"
  by (simp add: Pivot_init_world)

lemma pivots_init:
  "pivots (snd (Pivot_init env w namespace providers timespan' utcnow)) =
     pivots w @ [\<lparr>p_query_time = Some (initial_query_time timespan' utcnow),
                   p_providers = length (dicts w)\<rparr>]"
  by (simp add: Pivot_init_world)

lemma dicts_init:
  "dicts (snd (Pivot_init env w namespace providers timespan' utcnow)) =
     dicts w @ [registry namespace providers (next_obj w)]"
  by (simp add: Pivot_init_world)

lemma allocated_init:
  "allocated (snd (Pivot_init env w namespace providers timespan' utcnow)) (length (pivots w))"
  by (simp add: allocated_def pivots_init dicts_init)

subsection \<open>The operations keep the registry of an object\<close>

lemma run_op_frame:
  assumes "allocated w self"
  shows "allocated (run_op env w op) self \<and>
         self_providers (run_op env w op) self = self_providers w self"
proof (cases op)
  case (Set_timespan a ts)
  then show ?thesis
    using assms
    by (cases "a = self")
       (simp_all add: allocated_def self_providers_def timespan_setter_def set_query_time_def)
next
  case (Edit_query_time a u ts now)
  have sq: "allocated (set_query_time w' a qt) self \<and>
            self_providers (set_query_time w' a qt) self = self_providers w' self"
    if "allocated w' self" for w' qt
    using that
    by (cases "a = self") (simp_all add: allocated_def self_providers_def set_query_time_def)
  have lg: "allocated (log_call w' c) self \<and>
            self_providers (log_call w' c) self = self_providers w' self"
    if "allocated w' self" for w' c
    using that by (simp add: allocated_def self_providers_def log_call_def)
  show ?thesis
    using assms sq lg Edit_query_time
    by (auto simp: edit_query_time_def Let_def set_default_query_time_def
        split: option.splits sum.splits if_splits)
next
  case (Register_pivot_providers path ns c f)
  then show ?thesis
    using assms
    by (simp add: register_pivot_providers_def register_pivots_def log_call_def allocated_def
        self_providers_def)
next
  case (New_pivot ns provs ts now)
  then show ?thesis
    using assms
    by (simp add: allocated_def self_providers_def pivots_init dicts_init nth_append)
qed

lemma run_ops_frame:
  "allocated w self \<Longrightarrow>
   allocated (foldl (run_op env) w ops) self \<and>
   self_providers (foldl (run_op env) w ops) self = self_providers w self"
proof (induction ops arbitrary: w)
  case Nil
  then show ?case by simp
next
  case (Cons op ops)
  from run_op_frame[OF Cons.prems, of env op]
  have a: "allocated (run_op env w op) self"
    and s: "self_providers (run_op env w op) self = self_providers w self"
    by simp_all
  from Cons.IH[OF a] s show ?case by simp
qed

section \<open>The claims\<close>

text \<open>
  Unfolding everything that runs the constructor and the operations, for the evaluation of
  the model at a concrete input.
\<close>

lemmas run_defs =
  Pivot_init_def Let_def timespan_setter_def set_default_query_time_def set_query_time_def
  get_all_providers_def get_query_providers_def get_provider_by_type_def TILookup_new_def
  set_self_providers_def self_providers_def dict_update_def dict_setitem_def dict_get_def
  dict_values_def environment_dict_def add_data_queries_to_entities_def
  add_ioc_queries_to_entities_def register_pivots_def log_call_def get_provider_def
  get_def_pivot_reg_def DEF_PIVOT_REG_FILE_def query_time_label_def example_env_def
  empty_world_def

subsection \<open>C1: the time span is read at call time\<close>

text \<open>
  C1. On every \<open>Pivot\<close> object of the store, after the setter of \<open>timespan\<close> has been
  given a span, \<open>start\<close>, \<open>end\<close>, \<open>timespan\<close> and the bound method \<open>_get_timespan\<close>
  return that span, and the setter makes no call to a registration helper. The callable
  that the constructor hands to \<open>add_data_queries_to_entities\<close> is this bound method of
  the new object, in every such call: a reference to the object, read when it is called.
\<close>

theorem timespan_setter_read_at_call_time:
  assumes "self < length (pivots w)"
  shows "Pivot_start env (timespan_setter w self ts) self = Inr (ts_start ts)
       \<and> Pivot_end env (timespan_setter w self ts) self = Inr (ts_end ts)
       \<and> Pivot_timespan env (timespan_setter w self ts) self = Inr ts
       \<and> call env (timespan_setter w self ts) (Bound_get_timespan self) = Inr ts
       \<and> calls (timespan_setter w self ts) = calls w
       \<and> (\<forall>prov c. Add_data_queries_to_entities prov c \<in>
                      set (drop (length (calls w0))
                             (calls (snd (Pivot_init env w0 namespace providers timespan' utcnow))))
             \<longrightarrow> c = Bound_get_timespan (length (pivots w0)))"
proof -
  have q: "p_query_time (pivots (timespan_setter w self ts) ! self) =
             Some (QueryTime_span ts query_time_label)"
    using assms by (simp add: timespan_setter_def set_query_time_def)
  have s: "Pivot_start env (timespan_setter w self ts) self = Inr (ts_start ts)"
    and e: "Pivot_end env (timespan_setter w self ts) self = Inr (ts_end ts)"
    by (simp_all add: Pivot_start_def Pivot_end_def q)
  have t: "Pivot_timespan env (timespan_setter w self ts) self = Inr ts"
    and g: "call env (timespan_setter w self ts) (Bound_get_timespan self) = Inr ts"
    by (simp_all add: Pivot_timespan_def get_timespan_def s e)
  have c: "calls (timespan_setter w self ts) = calls w"
    by (simp add: timespan_setter_def set_query_time_def)
  have r: "\<forall>prov c. Add_data_queries_to_entities prov c \<in>
                      set (drop (length (calls w0))
                             (calls (snd (Pivot_init env w0 namespace providers timespan' utcnow))))
             \<longrightarrow> c = Bound_get_timespan (length (pivots w0))"
    by (auto simp: calls_init)
  from s e t g c r show ?thesis by blast
qed

text \<open>
  C1 at a concrete input: an environment made at time 1000 without a span, then given the
  span from 5 to 9.
\<close>

theorem timespan_setter_read_at_call_time_witness:
  "Pivot_start example_env
     (timespan_setter (snd (Pivot_init example_env empty_world None None None 1000)) 0
        \<lparr>ts_start = 5, ts_end = 9\<rparr>) 0 = Inr 5
   \<and> Pivot_end example_env
     (timespan_setter (snd (Pivot_init example_env empty_world None None None 1000)) 0
        \<lparr>ts_start = 5, ts_end = 9\<rparr>) 0 = Inr 9
   \<and> call example_env
     (timespan_setter (snd (Pivot_init example_env empty_world None None None 1000)) 0
        \<lparr>ts_start = 5, ts_end = 9\<rparr>) (Bound_get_timespan 0) = Inr \<lparr>ts_start = 5, ts_end = 9\<rparr>"
  using timespan_setter_read_at_call_time
      [where w = "snd (Pivot_init example_env empty_world None None None 1000)"
         and self = 0 and ts = "\<lparr>ts_start = 5, ts_end = 9\<rparr>" and env = example_env]
  by (simp add: pivots_init)

subsection \<open>C2: the explicit list overrides the namespace\<close>

text \<open>
  C2. When the values of the namespace and the explicit list both hold a provider with
  the category key \<open>k\<close> (the environment name of a query provider, or the key
  \<open>"TILookup"\<close> of a TI lookup), the registry of the new environment holds under \<open>k\<close> a
  provider of the explicit list with that key. The environment names of the listed query
  providers are names of data environments: none of them is the type name \<open>"TILookup"\<close>.
\<close>

theorem explicit_provider_overrides_namespace:
  assumes "x \<in> set (namespace_values namespace)" and "category_key x = Some k"
    and "y \<in> set (items providers)" and "category_key y = Some k"
    and "\<forall>p\<in>set (items providers).
           isinstance p QueryProvider_type \<longrightarrow> environment p \<noteq> ''TILookup''"
  shows "\<exists>z\<in>set (items providers). category_key z = Some k \<and>
           get_provider (snd (Pivot_init env w namespace providers timespan' utcnow))
             (length (pivots w)) k = Some z"
proof (cases "k = ''TILookup''")
  case True
  from assms(4) have "(isinstance y QueryProvider_type \<and> environment y = k) \<or>
                      (isinstance y TILookup_type \<and> k = ''TILookup'')"
    by (rule category_key_cases)
  with assms(3,5) True have "isinstance y TILookup_type"
    by blast
  with assms(3) obtain z where "z \<in> set (items providers)" "isinstance z TILookup_type"
    "get_provider_by_type TILookup_type namespace providers = Some z"
    using get_provider_by_type_explicit by blast
  then show ?thesis
    using True by (auto simp: get_provider_init dict_get_registry found_ti_def category_key_TILookup)
next
  case False
  with assms(4) have "isinstance y QueryProvider_type" "environment y = k"
    using category_key_cases by blast+
  with assms(3) obtain z where "z \<in> set (items providers)" "isinstance z QueryProvider_type"
    "environment z = k" "map_of (environment_dict (items providers)) k = Some z"
    using environment_dict_present by blast
  then show ?thesis
    using False by (auto simp: get_provider_init dict_get_registry category_key_QueryProvider)
qed

text \<open>
  C2 at a concrete input: both sources hold a query provider for \<open>"LogAnalytics"\<close> and a
  TI lookup; the registry holds the two of the explicit list.
\<close>

theorem explicit_provider_overrides_namespace_witness:
  "get_provider
     (snd (Pivot_init example_env empty_world
             (Some [(''qry_old'', QueryProvider ''LogAnalytics'' 1), (''ti_old'', TILookup 2)])
             (Some [QueryProvider ''LogAnalytics'' 3, TILookup 4]) None 0))
     0 ''LogAnalytics'' = Some (QueryProvider ''LogAnalytics'' 3)
   \<and> get_provider
     (snd (Pivot_init example_env empty_world
             (Some [(''qry_old'', QueryProvider ''LogAnalytics'' 1), (''ti_old'', TILookup 2)])
             (Some [QueryProvider ''LogAnalytics'' 3, TILookup 4]) None 0))
     0 ''TILookup'' = Some (TILookup 4)"
  using explicit_provider_overrides_namespace
      [where providers = "Some [QueryProvider ''LogAnalytics'' 3, TILookup 4]"
         and x = "QueryProvider ''LogAnalytics'' 1"
         and y = "QueryProvider ''LogAnalytics'' 3" and k = "''LogAnalytics''"
         and env = example_env and w = empty_world
         and namespace = "Some [(''qry_old'', QueryProvider ''LogAnalytics'' 1),
                                (''ti_old'', TILookup 2)]"
         and timespan' = None and utcnow = 0]
    explicit_provider_overrides_namespace
      [where providers = "Some [QueryProvider ''LogAnalytics'' 3, TILookup 4]"
         and x = "TILookup 2"
         and y = "TILookup 4" and k = "''TILookup''"
         and env = example_env and w = empty_world
         and namespace = "Some [(''qry_old'', QueryProvider ''LogAnalytics'' 1),
                                (''ti_old'', TILookup 2)]"
         and timespan' = None and utcnow = 0]
  by (auto simp: empty_world_def dict_values_def)

subsection \<open>C3: the later query provider of the namespace\<close>

text \<open>
  C3 as it is stated fails in two places. The namespace holds two query providers for
  \<open>"LogAnalytics"\<close> and the explicit list holds a third: the registry holds the third. The
  namespace holds two query providers whose environment name is \<open>"TILookup"\<close>: the
  registry holds under that key the TI lookup that the constructor made.
\<close>

theorem namespace_later_wins_counterexample:
  "get_provider
     (snd (Pivot_init example_env empty_world
             (Some [(''qry_a'', QueryProvider ''LogAnalytics'' 1),
                    (''qry_b'', QueryProvider ''LogAnalytics'' 2)])
             (Some [QueryProvider ''LogAnalytics'' 3]) None 0))
     0 ''LogAnalytics'' = Some (QueryProvider ''LogAnalytics'' 3)
   \<and> get_provider
     (snd (Pivot_init example_env empty_world
             (Some [(''qry_a'', QueryProvider ''LogAnalytics'' 1),
                    (''qry_b'', QueryProvider ''LogAnalytics'' 2)])
             (Some [QueryProvider ''LogAnalytics'' 3]) None 0))
     0 ''LogAnalytics'' \<noteq> Some (QueryProvider ''LogAnalytics'' 2)
   \<and> get_provider
     (snd (Pivot_init example_env empty_world
             (Some [(''qry_a'', QueryProvider ''TILookup'' 1),
                    (''qry_b'', QueryProvider ''TILookup'' 2)])
             None None 0))
     0 ''TILookup'' = Some (TILookup 0)"
  by (simp add: run_defs)

text \<open>
  C3, amended. When the values of the namespace hold two or more query providers with the
  environment \<open>k\<close>, the explicit list holds no query provider with that environment and
  \<open>k\<close> is not the literal \<open>"TILookup"\<close>, the registry of the new environment holds under
  \<open>k\<close> the one that comes last in the namespace.
\<close>

theorem namespace_later_query_provider_wins:
  assumes "namespace_values namespace = xs @ q1 # ys @ q2 # zs"
    and "isinstance q1 QueryProvider_type" "environment q1 = k"
    and "isinstance q2 QueryProvider_type" "environment q2 = k"
    and "\<forall>p\<in>set zs. isinstance p QueryProvider_type \<longrightarrow> environment p \<noteq> k"
    and "\<forall>p\<in>set (items providers). isinstance p QueryProvider_type \<longrightarrow> environment p \<noteq> k"
    and "k \<noteq> ''TILookup''"
  shows "get_provider (snd (Pivot_init env w namespace providers timespan' utcnow))
           (length (pivots w)) k = Some q2"
proof -
  have ns: "namespace_values namespace = (xs @ q1 # ys) @ q2 # zs"
    using assms(1) by simp
  have "map_of (environment_dict (namespace_values namespace)) (environment q2) = Some q2"
    using ns assms(4) assms(6) assms(5) by (intro environment_dict_last) auto
  moreover have "map_of (environment_dict (items providers)) k = None"
    using assms(7) by (rule environment_dict_None)
  ultimately show ?thesis
    using assms(5,8) by (simp add: get_provider_init dict_get_registry map_add_def)
qed

text \<open>
  C3 at a concrete input: two query providers for \<open>"LogAnalytics"\<close> in the namespace, with
  another object between them and a TI lookup after them.
\<close>

theorem namespace_later_query_provider_wins_witness:
  "get_provider
     (snd (Pivot_init example_env empty_world
             (Some [(''qry_a'', QueryProvider ''LogAnalytics'' 1), (''df'', Other 9),
                    (''qry_b'', QueryProvider ''LogAnalytics'' 2), (''ti'', TILookup 3)])
             (Some [QueryProvider ''Splunk'' 4]) None 0))
     0 ''LogAnalytics'' = Some (QueryProvider ''LogAnalytics'' 2)"
  using namespace_later_query_provider_wins
      [where namespace = "Some [(''qry_a'', QueryProvider ''LogAnalytics'' 1), (''df'', Other 9),
                                (''qry_b'', QueryProvider ''LogAnalytics'' 2),
                                (''ti'', TILookup 3)]"
         and xs = "[]" and ?q1.0 = "QueryProvider ''LogAnalytics'' 1" and ys = "[Other 9]"
         and ?q2.0 = "QueryProvider ''LogAnalytics'' 2" and zs = "[TILookup 3]"
         and k = "''LogAnalytics''" and providers = "Some [QueryProvider ''Splunk'' 4]"
         and env = example_env and w = empty_world and timespan' = None and utcnow = 0]
  by (simp add: dict_values_def empty_world_def)

subsection \<open>C4: which instance of a source is recorded\<close>

text \<open>
  C4 as it is stated fails for the TI lookups of the explicit list: of two TI lookups in
  the list the registry holds the first (\<open>ti_provs[0]\<close>), not the last.
\<close>

theorem last_assignment_counterexample:
  "get_provider
     (snd (Pivot_init example_env empty_world None (Some [TILookup 1, TILookup 2]) None 0))
     0 ''TILookup'' = Some (TILookup 1)
   \<and> get_provider
     (snd (Pivot_init example_env empty_world None (Some [TILookup 1, TILookup 2]) None 0))
     0 ''TILookup'' \<noteq> Some (last [TILookup 1, TILookup 2])"
  by (simp add: run_defs)

text \<open>
  C4, amended. The registry of the new environment has at most one entry per key. For a
  query provider whose environment is not the literal \<open>"TILookup"\<close>: the last one with
  that environment in the explicit list is recorded; the last one with that environment in
  the namespace is recorded when the explicit list has none with that environment. For
  the TI lookup: the first one of the explicit list is recorded; the last one of the
  namespace is recorded when the explicit list has none.
\<close>

theorem last_assignment_wins_within_source:
  "distinct (map fst (self_providers (snd (Pivot_init env w namespace providers timespan' utcnow))
                        (length (pivots w))))
   \<and> (\<forall>xs q ys. items providers = xs @ q # ys \<and> isinstance q QueryProvider_type \<and>
          environment q \<noteq> ''TILookup'' \<and>
          (\<forall>p\<in>set ys. isinstance p QueryProvider_type \<longrightarrow> environment p \<noteq> environment q)
        \<longrightarrow> get_provider (snd (Pivot_init env w namespace providers timespan' utcnow))
              (length (pivots w)) (environment q) = Some q)
   \<and> (\<forall>xs q ys. namespace_values namespace = xs @ q # ys \<and> isinstance q QueryProvider_type \<and>
          environment q \<noteq> ''TILookup'' \<and>
          (\<forall>p\<in>set ys. isinstance p QueryProvider_type \<longrightarrow> environment p \<noteq> environment q) \<and>
          (\<forall>p\<in>set (items providers).
              isinstance p QueryProvider_type \<longrightarrow> environment p \<noteq> environment q)
        \<longrightarrow> get_provider (snd (Pivot_init env w namespace providers timespan' utcnow))
              (length (pivots w)) (environment q) = Some q)
   \<and> (\<forall>xs t ys. items providers = xs @ t # ys \<and> isinstance t TILookup_type \<and>
          (\<forall>p\<in>set xs. \<not> isinstance p TILookup_type)
        \<longrightarrow> get_provider (snd (Pivot_init env w namespace providers timespan' utcnow))
              (length (pivots w)) ''TILookup'' = Some t)
   \<and> (\<forall>xs t ys. namespace_values namespace = xs @ t # ys \<and> isinstance t TILookup_type \<and>
          (\<forall>p\<in>set ys. \<not> isinstance p TILookup_type) \<and>
          (\<forall>p\<in>set (items providers). \<not> isinstance p TILookup_type)
        \<longrightarrow> get_provider (snd (Pivot_init env w namespace providers timespan' utcnow))
              (length (pivots w)) ''TILookup'' = Some t)"
proof (intro conjI allI impI)
  show "distinct (map fst (self_providers (snd (Pivot_init env w namespace providers timespan' utcnow))
                        (length (pivots w))))"
    by (simp add: pivots_init dicts_init self_providers_def distinct_registry)
next
  fix xs q ys
  assume a: "items providers = xs @ q # ys \<and> isinstance q QueryProvider_type \<and>
          environment q \<noteq> ''TILookup'' \<and>
          (\<forall>p\<in>set ys. isinstance p QueryProvider_type \<longrightarrow> environment p \<noteq> environment q)"
  then have "map_of (environment_dict (items providers)) (environment q) = Some q"
    by (intro environment_dict_last) auto
  with a show "get_provider (snd (Pivot_init env w namespace providers timespan' utcnow))
              (length (pivots w)) (environment q) = Some q"
    by (simp add: get_provider_init dict_get_registry)
next
  fix xs q ys
  assume a: "namespace_values namespace = xs @ q # ys \<and> isinstance q QueryProvider_type \<and>
          environment q \<noteq> ''TILookup'' \<and>
          (\<forall>p\<in>set ys. isinstance p QueryProvider_type \<longrightarrow> environment p \<noteq> environment q) \<and>
          (\<forall>p\<in>set (items providers).
              isinstance p QueryProvider_type \<longrightarrow> environment p \<noteq> environment q)"
  then have "map_of (environment_dict (namespace_values namespace)) (environment q) = Some q"
    by (intro environment_dict_last) auto
  moreover from a have "map_of (environment_dict (items providers)) (environment q) = None"
    by (intro environment_dict_None) auto
  ultimately show "get_provider (snd (Pivot_init env w namespace providers timespan' utcnow))
              (length (pivots w)) (environment q) = Some q"
    using a by (simp add: get_provider_init dict_get_registry map_add_def)
next
  fix xs t ys
  assume a: "items providers = xs @ t # ys \<and> isinstance t TILookup_type \<and>
          (\<forall>p\<in>set xs. \<not> isinstance p TILookup_type)"
  then have "get_provider_by_type TILookup_type namespace providers = Some t"
    by (intro get_provider_by_type_first) auto
  then show "get_provider (snd (Pivot_init env w namespace providers timespan' utcnow))
              (length (pivots w)) ''TILookup'' = Some t"
    by (simp add: get_provider_init dict_get_registry found_ti_def)
next
  fix xs t ys
  assume a: "namespace_values namespace = xs @ t # ys \<and> isinstance t TILookup_type \<and>
          (\<forall>p\<in>set ys. \<not> isinstance p TILookup_type) \<and>
          (\<forall>p\<in>set (items providers). \<not> isinstance p TILookup_type)"
  then have "get_provider_by_type TILookup_type namespace providers = Some t"
    by (intro get_provider_by_type_namespace_last) auto
  then show "get_provider (snd (Pivot_init env w namespace providers timespan' utcnow))
              (length (pivots w)) ''TILookup'' = Some t"
    by (simp add: get_provider_init dict_get_registry found_ti_def)
qed

text \<open>
  C4 at concrete inputs: an explicit list with two TI lookups and two query providers for
  \<open>"LogAnalytics"\<close>, beside a namespace with two query providers for \<open>"Splunk"\<close>; and a
  namespace with two TI lookups, without an explicit list.
\<close>

theorem last_assignment_wins_within_source_witness:
  "get_provider
     (snd (Pivot_init example_env empty_world
             (Some [(''qry_a'', QueryProvider ''Splunk'' 1), (''qry_b'', QueryProvider ''Splunk'' 2)])
             (Some [TILookup 4, QueryProvider ''LogAnalytics'' 5, TILookup 6,
                    QueryProvider ''LogAnalytics'' 7]) None 0))
     0 ''LogAnalytics'' = Some (QueryProvider ''LogAnalytics'' 7)
   \<and> get_provider
     (snd (Pivot_init example_env empty_world
             (Some [(''qry_a'', QueryProvider ''Splunk'' 1), (''qry_b'', QueryProvider ''Splunk'' 2)])
             (Some [TILookup 4, QueryProvider ''LogAnalytics'' 5, TILookup 6,
                    QueryProvider ''LogAnalytics'' 7]) None 0))
     0 ''Splunk'' = Some (QueryProvider ''Splunk'' 2)
   \<and> get_provider
     (snd (Pivot_init example_env empty_world
             (Some [(''qry_a'', QueryProvider ''Splunk'' 1), (''qry_b'', QueryProvider ''Splunk'' 2)])
             (Some [TILookup 4, QueryProvider ''LogAnalytics'' 5, TILookup 6,
                    QueryProvider ''LogAnalytics'' 7]) None 0))
     0 ''TILookup'' = Some (TILookup 4)
   \<and> get_provider
     (snd (Pivot_init example_env empty_world
             (Some [(''ti_a'', TILookup 1), (''ti_b'', TILookup 2)]) None None 0))
     0 ''TILookup'' = Some (TILookup 2)"
proof -
  let ?ns = "Some [(''qry_a'', QueryProvider ''Splunk'' 1), (''qry_b'', QueryProvider ''Splunk'' 2)]"
  let ?ps = "Some [TILookup 4, QueryProvider ''LogAnalytics'' 5, TILookup 6,
                   QueryProvider ''LogAnalytics'' 7]"
  note a = last_assignment_wins_within_source
             [where env = example_env and w = empty_world and namespace = ?ns
                and providers = ?ps and timespan' = None and utcnow = 0]
  note b = last_assignment_wins_within_source
             [where env = example_env and w = empty_world
                and namespace = "Some [(''ti_a'', TILookup 1), (''ti_b'', TILookup 2)]"
                and providers = None and timespan' = None and utcnow = 0]
  have "get_provider (snd (Pivot_init example_env empty_world ?ns ?ps None 0)) 0
          (environment (QueryProvider ''LogAnalytics'' 7)) = Some (QueryProvider ''LogAnalytics'' 7)"
    using a[THEN conjunct2, THEN conjunct1, rule_format,
            of "[TILookup 4, QueryProvider ''LogAnalytics'' 5, TILookup 6]"
               "QueryProvider ''LogAnalytics'' 7" "[]"]
    by (simp add: empty_world_def)
  moreover have "get_provider (snd (Pivot_init example_env empty_world ?ns ?ps None 0)) 0
          (environment (QueryProvider ''Splunk'' 2)) = Some (QueryProvider ''Splunk'' 2)"
    using a[THEN conjunct2, THEN conjunct2, THEN conjunct1, rule_format,
            of "[QueryProvider ''Splunk'' 1]" "QueryProvider ''Splunk'' 2" "[]"]
    by (simp add: empty_world_def dict_values_def)
  moreover have "get_provider (snd (Pivot_init example_env empty_world ?ns ?ps None 0)) 0
          ''TILookup'' = Some (TILookup 4)"
    using a[THEN conjunct2, THEN conjunct2, THEN conjunct2, THEN conjunct1, rule_format,
            of "[]" "TILookup 4" "[QueryProvider ''LogAnalytics'' 5, TILookup 6,
                                   QueryProvider ''LogAnalytics'' 7]"]
    by (simp add: empty_world_def)
  moreover have "get_provider
     (snd (Pivot_init example_env empty_world
             (Some [(''ti_a'', TILookup 1), (''ti_b'', TILookup 2)]) None None 0))
     0 ''TILookup'' = Some (TILookup 2)"
    using b[THEN conjunct2, THEN conjunct2, THEN conjunct2, THEN conjunct2, rule_format,
            of "[TILookup 1]" "TILookup 2" "[]"]
    by (simp add: empty_world_def dict_values_def)
  ultimately show ?thesis by simp
qed

subsection \<open>C5: the default TI lookup\<close>

text \<open>
  C5. When neither the values of the namespace nor the explicit list hold a TI lookup, the
  constructor calls \<open>TILookup()\<close> (the store hands out one new object) and the registry of
  the new environment holds that object under \<open>"TILookup"\<close>.
\<close>

theorem default_ti_lookup_created:
  assumes "\<forall>p\<in>set (namespace_values namespace). \<not> isinstance p TILookup_type"
    and "\<forall>p\<in>set (items providers). \<not> isinstance p TILookup_type"
  shows "get_provider (snd (Pivot_init env w namespace providers timespan' utcnow))
           (length (pivots w)) ''TILookup'' = Some (TILookup (next_obj w))
         \<and> next_obj (snd (Pivot_init env w namespace providers timespan' utcnow)) =
             Suc (next_obj w)"
proof -
  have "get_provider_by_type TILookup_type namespace providers = None"
    using assms(2,1) by (rule get_provider_by_type_None)
  then show ?thesis
    by (simp add: get_provider_init dict_get_registry found_ti_def next_obj_init)
qed

text \<open>
  C5 at a concrete input: a namespace and an explicit list with query providers only.
\<close>

theorem default_ti_lookup_created_witness:
  "get_provider
     (snd (Pivot_init example_env empty_world
             (Some [(''qry_a'', QueryProvider ''LogAnalytics'' 1)])
             (Some [QueryProvider ''Splunk'' 2]) None 0))
     0 ''TILookup'' = Some (TILookup 0)
   \<and> next_obj
     (snd (Pivot_init example_env empty_world
             (Some [(''qry_a'', QueryProvider ''LogAnalytics'' 1)])
             (Some [QueryProvider ''Splunk'' 2]) None 0)) = 1"
  using default_ti_lookup_created
      [where namespace = "Some [(''qry_a'', QueryProvider ''LogAnalytics'' 1)]"
         and providers = "Some [QueryProvider ''Splunk'' 2]"
         and env = example_env and w = empty_world and timespan' = None and utcnow = 0]
  by (simp add: dict_values_def empty_world_def)

subsection \<open>C6: no query providers\<close>

text \<open>
  C6. When neither the values of the namespace nor the explicit list hold a query
  provider, the constructor returns the new environment and the calls it makes to the
  helpers are two, \<open>add_ioc_queries_to_entities\<close> and \<open>register_pivots\<close>: none to
  \<open>add_data_queries_to_entities\<close>. The only error that the constructor can pass on is the
  one that \<open>register_pivots\<close> raises for the packaged registration file, which does not
  depend on the providers; the theorem takes that file to be accepted.
\<close>

theorem no_query_providers_no_error:
  assumes "\<forall>p\<in>set (namespace_values namespace). \<not> isinstance p QueryProvider_type"
    and "\<forall>p\<in>set (items providers). \<not> isinstance p QueryProvider_type"
    and "entities_recognised env get_def_pivot_reg"
  shows "fst (Pivot_init env w namespace providers timespan' utcnow) = Inr (length (pivots w))
         \<and> calls (snd (Pivot_init env w namespace providers timespan' utcnow)) =
             calls w @
             [Add_ioc_queries_to_entities
                (get_provider (snd (Pivot_init env w namespace providers timespan' utcnow))
                   (length (pivots w)) ''TILookup'') ''ti'',
              Register_pivots get_def_pivot_reg ''other'' None namespace]"
proof -
  have "discovered namespace providers = []"
    using assms(1,2) by (simp add: discovered_def environment_dict_empty)
  then have "registry namespace providers (next_obj w) =
               [(''TILookup'', found_ti namespace providers (next_obj w))]"
    by (simp add: registry_def dict_setitem_def)
  moreover have "\<not> isinstance (found_ti namespace providers (next_obj w)) QueryProvider_type"
    using found_ti_isinstance by (rule TILookup_not_QueryProvider)
  ultimately have "filter (\<lambda>prov. isinstance prov QueryProvider_type)
                     (dict_values (registry namespace providers (next_obj w))) = []"
    by (simp add: dict_values_def)
  then show ?thesis
    using assms(3) by (simp add: Pivot_init_result calls_init get_provider_init)
qed

text \<open>
  C6 at a concrete input: a namespace with a TI lookup and another object, no explicit
  list.
\<close>

theorem no_query_providers_no_error_witness:
  "fst (Pivot_init example_env empty_world
          (Some [(''ti'', TILookup 1), (''df'', Other 2)]) None None 0) = Inr 0
   \<and> calls (snd (Pivot_init example_env empty_world
                   (Some [(''ti'', TILookup 1), (''df'', Other 2)]) None None 0)) =
       [Add_ioc_queries_to_entities (Some (TILookup 1)) ''ti'',
        Register_pivots get_def_pivot_reg ''other'' None
          (Some [(''ti'', TILookup 1), (''df'', Other 2)])]"
proof -
  have t: "get_provider
             (snd (Pivot_init example_env empty_world
                     (Some [(''ti'', TILookup 1), (''df'', Other 2)]) None None 0))
             0 ''TILookup'' = Some (TILookup 1)"
    by (simp add: run_defs)
  show ?thesis
    using no_query_providers_no_error
        [where namespace = "Some [(''ti'', TILookup 1), (''df'', Other 2)]"
           and providers = None and env = example_env and w = empty_world
           and timespan' = None and utcnow = 0]
      t
    by (simp add: dict_values_def empty_world_def example_env_def)
qed

subsection \<open>C7: the default time span\<close>

text \<open>
  C7. Constructed without a time span, the new environment has the query time
  \<open>QueryTime(origin_time=utcnow, before=1, after=0, units="day")\<close>: its start is one day
  before the time of construction and its end is that time.
\<close>

theorem default_timespan_is_one_day_back:
  "p_query_time (pivots (snd (Pivot_init env w namespace providers None utcnow)) ! length (pivots w)) =
     Some (QueryTime_rolling utcnow 1 0 query_time_label ''day'')
   \<and> Pivot_start env (snd (Pivot_init env w namespace providers None utcnow)) (length (pivots w)) =
       Inr (utcnow - unit_delta env ''day'')
   \<and> Pivot_end env (snd (Pivot_init env w namespace providers None utcnow)) (length (pivots w)) =
       Inr utcnow"
  by (simp add: pivots_init initial_query_time_def Pivot_start_def Pivot_end_def)

text \<open>C7 at a concrete input: construction at time 1000000 in a package whose day has 86400 seconds.\<close>

theorem default_timespan_is_one_day_back_witness:
  "Pivot_start example_env (snd (Pivot_init example_env empty_world None None None 1000000)) 0 =
     Inr 913600
   \<and> Pivot_end example_env (snd (Pivot_init example_env empty_world None None None 1000000)) 0 =
     Inr 1000000"
  using default_timespan_is_one_day_back
      [where env = example_env and w = empty_world and namespace = None and providers = None
         and utcnow = 1000000]
  by (simp add: empty_world_def example_env_def)

subsection \<open>C8: what \<open>providers\<close> returns\<close>

text \<open>
  C8 as it is stated fails: the property returns the dict of the registry itself, so an
  assignment that a caller makes to the returned dict is seen by \<open>get_provider\<close>.
\<close>

theorem providers_view_counterexample:
  "get_provider (snd (Pivot_init example_env empty_world None None None 0)) 0 ''Custom'' = None
   \<and> get_provider
       (caller_setitem (snd (Pivot_init example_env empty_world None None None 0))
          (Pivot_providers (snd (Pivot_init example_env empty_world None None None 0)) 0)
          ''Custom'' (Other 7))
       0 ''Custom'' = Some (Other 7)"
  by (simp add: run_defs Pivot_providers_def caller_setitem_def)

text \<open>
  C8, amended. The accessor \<open>providers\<close> returns the dict that the environment holds as
  its registry, not a copy: after a caller has assigned a value to a key of the returned
  dict, the registry is the old one with that assignment made and \<open>get_provider\<close> returns
  that value for the key.
\<close>

theorem providers_returns_the_registry_itself:
  assumes "self < length (pivots w)" and "p_providers (pivots w ! self) < length (dicts w)"
  shows "Pivot_providers w self = p_providers (pivots w ! self)
       \<and> get_provider (caller_setitem w (Pivot_providers w self) k v) self k = Some v
       \<and> self_providers (caller_setitem w (Pivot_providers w self) k v) self =
           dict_setitem (self_providers w self) k v"
  using assms
  by (simp add: Pivot_providers_def caller_setitem_def get_provider_def self_providers_def
      dict_get_def dict_setitem_def AList.update_conv')

text \<open>C8 at a concrete input: a caller files an object under \<open>"Custom"\<close> in a new environment.\<close>

theorem providers_returns_the_registry_itself_witness:
  "get_provider
     (caller_setitem (snd (Pivot_init example_env empty_world None None None 0))
        (Pivot_providers (snd (Pivot_init example_env empty_world None None None 0)) 0)
        ''Custom'' (Other 7))
     0 ''Custom'' = Some (Other 7)"
proof -
  let ?w1 = "snd (Pivot_init example_env empty_world None None None 0)"
  have a: "0 < length (pivots ?w1)"
    by (simp add: pivots_init)
  have b: "p_providers (pivots ?w1 ! 0) < length (dicts ?w1)"
    by (simp add: pivots_init dicts_init empty_world_def)
  from providers_returns_the_registry_itself [OF a b, of "''Custom''" "Other 7"]
  show ?thesis by blast
qed

subsection \<open>C9: the TI lookup stays registered\<close>

text \<open>
  C9. After construction, and after any sequence of the operations of the class on the
  objects of the store (setting the time span, \<open>edit_query_time\<close>,
  \<open>register_pivot_providers\<close>, constructing further environments), \<open>get_provider\<close>
  returns for \<open>"TILookup"\<close> an instance of the TI lookup class, never \<open>None\<close>.
\<close>

theorem ti_lookup_always_registered:
  "\<exists>x. get_provider
          (foldl (run_op env) (snd (Pivot_init env w namespace providers timespan' utcnow)) ops)
          (length (pivots w)) ''TILookup'' = Some x
        \<and> isinstance x TILookup_type"
proof -
  let ?w1 = "snd (Pivot_init env w namespace providers timespan' utcnow)"
  have "self_providers (foldl (run_op env) ?w1 ops) (length (pivots w)) =
          self_providers ?w1 (length (pivots w))"
    using run_ops_frame[OF allocated_init] by simp
  then have "get_provider (foldl (run_op env) ?w1 ops) (length (pivots w)) ''TILookup'' =
               get_provider ?w1 (length (pivots w)) ''TILookup''"
    by (simp add: get_provider_def)
  also have "\<dots> = Some (found_ti namespace providers (next_obj w))"
    by (simp add: get_provider_init dict_get_registry)
  finally show ?thesis
    using found_ti_isinstance by blast
qed

text \<open>
  C9 at a concrete input: an environment, then a new time span, an edit of the query time
  in hours, a second environment with its own TI lookup and a registration from a file.
\<close>

theorem ti_lookup_always_registered_witness:
  "get_provider
     (foldl (run_op example_env)
        (snd (Pivot_init example_env empty_world None None None 0))
        [Set_timespan 0 \<lparr>ts_start = 5, ts_end = 9\<rparr>,
         Edit_query_time 0 ''hour'' None 50,
         New_pivot None (Some [TILookup 8]) None 60,
         Register_pivot_providers (File_path ''my_pivots.yaml'') None ''custom'' False])
     0 ''TILookup'' \<noteq> None"
  using ti_lookup_always_registered
      [where env = example_env and w = empty_world and namespace = None and providers = None
         and timespan' = None and utcnow = 0
         and ops = "[Set_timespan 0 \<lparr>ts_start = 5, ts_end = 9\<rparr>,
                     Edit_query_time 0 ''hour'' None 50,
                     New_pivot None (Some [TILookup 8]) None 60,
                     Register_pivot_providers (File_path ''my_pivots.yaml'') None ''custom'' False]"]
  by (auto simp: empty_world_def)

subsection \<open>C10: \<open>edit_query_time\<close> and the units\<close>

text \<open>
  C10. On an environment with a query time, \<open>edit_query_time\<close> without a time span: when
  the units given differ from the units of the query time, the query time becomes the
  rolling window of one such unit back from the current UTC time (start one unit before
  that time, end at that time), whatever it was before, and this new widget is displayed;
  when the units are the same, the store is unchanged but for the display of the widget it
  has.
\<close>

theorem edit_query_time_units:
  assumes "self < length (pivots w)" and "p_query_time (pivots w ! self) = Some qt"
  shows "(QueryTime_units env qt \<noteq> units' \<longrightarrow>
            edit_query_time env w self units' None utcnow =
              Inr (log_call
                     (set_query_time w self (QueryTime_rolling utcnow 1 0 query_time_label units'))
                     (Display (QueryTime_rolling utcnow 1 0 query_time_label units')))
            \<and> Pivot_start env
                (set_query_time w self (QueryTime_rolling utcnow 1 0 query_time_label units')) self =
                Inr (utcnow - unit_delta env units')
            \<and> Pivot_end env
                (set_query_time w self (QueryTime_rolling utcnow 1 0 query_time_label units')) self =
                Inr utcnow)
       \<and> (QueryTime_units env qt = units' \<longrightarrow>
            edit_query_time env w self units' None utcnow = Inr (log_call w (Display qt)))"
  using assms
  by (simp add: edit_query_time_def set_default_query_time_def set_query_time_def Let_def
      Pivot_start_def Pivot_end_def)

text \<open>
  C10 at a concrete input: an environment with the explicit span from 5 to 9 (a widget in
  minutes), edited in days at time 1000000.
\<close>

theorem edit_query_time_units_witness:
  "edit_query_time example_env
     (timespan_setter (snd (Pivot_init example_env empty_world None None None 0)) 0
        \<lparr>ts_start = 5, ts_end = 9\<rparr>) 0 ''day'' None 1000000 =
     Inr (log_call
            (set_query_time
               (timespan_setter (snd (Pivot_init example_env empty_world None None None 0)) 0
                  \<lparr>ts_start = 5, ts_end = 9\<rparr>) 0
               (QueryTime_rolling 1000000 1 0 query_time_label ''day''))
            (Display (QueryTime_rolling 1000000 1 0 query_time_label ''day'')))
   \<and> Pivot_start example_env
       (set_query_time
          (timespan_setter (snd (Pivot_init example_env empty_world None None None 0)) 0
             \<lparr>ts_start = 5, ts_end = 9\<rparr>) 0
          (QueryTime_rolling 1000000 1 0 query_time_label ''day'')) 0 = Inr 913600"
  using edit_query_time_units
      [where w = "timespan_setter (snd (Pivot_init example_env empty_world None None None 0)) 0
                    \<lparr>ts_start = 5, ts_end = 9\<rparr>"
         and self = 0 and qt = "QueryTime_span \<lparr>ts_start = 5, ts_end = 9\<rparr> query_time_label"
         and env = example_env and units' = "''day''" and utcnow = 1000000]
  by (simp add: pivots_init timespan_setter_def set_query_time_def example_env_def)

end
